theory Spec2Isabelle
  imports Main "HOL-Library.Sublist"
begin

section \<open>Data model\<close>

text \<open>
  A Python \<open>str\<close> is a sequence of Unicode code points, so a text is a list of code
  points. The tokenizer (\<open>tiktoken\<close>) is an external oracle: \<open>count_tokens\<close> is
  \<open>len(encoding.encode(text))\<close>, a non-negative integer that depends on the text only.
  It is a parameter \<open>count\<close> of every function that counts tokens.

  An entry of a conversation history is a Python sequence of texts. The code checks
  \<open>len(item) == 2\<close> before it unpacks an entry, so entries of any length are admitted
  and an entry is well formed when it has exactly two fields.
\<close>

type_synonym pystr = "nat list"

type_synonym item = "pystr list"

type_synonym counter = "pystr \<Rightarrow> nat"

definition well_formed :: "item \<Rightarrow> bool" where
  "well_formed item = (length item = 2)"

definition MAX_TOKENS :: int where
  "MAX_TOKENS = 4000"

definition MAX_HISTORY_ITEMS :: nat where
  "MAX_HISTORY_ITEMS = 20"

section \<open>trim_conversation\<close>

text \<open>
  \<open>item_tokens = count_tokens(user_msg) + count_tokens(bot_msg)\<close> for an entry that
  passed the length check.
\<close>

definition item_tokens :: "counter \<Rightarrow> item \<Rightarrow> int" where
  "item_tokens count item = int (count (item ! 0)) + int (count (item ! 1))"

text \<open>
  The loop \<open>for item in reversed(conversation)\<close>: the list argument is the part of the
  reversed conversation still to visit, \<open>total_tokens\<close> and \<open>trimmed\<close> are the two
  local variables. \<open>continue\<close> goes on with the rest, \<open>break\<close> returns \<open>trimmed\<close>,
  \<open>trimmed.insert(0, item)\<close> puts the entry in front.
\<close>

fun trim_loop :: "counter \<Rightarrow> int \<Rightarrow> item list \<Rightarrow> int \<Rightarrow> item list \<Rightarrow> item list" where
  "trim_loop count max_tokens [] total_tokens trimmed = trimmed"
| "trim_loop count max_tokens (item # rest) total_tokens trimmed =
     (if length item \<noteq> 2 then trim_loop count max_tokens rest total_tokens trimmed
      else if total_tokens + item_tokens count item > max_tokens then trimmed
      else trim_loop count max_tokens rest
             (total_tokens + item_tokens count item) (item # trimmed))"

definition trim_conversation :: "counter \<Rightarrow> item list \<Rightarrow> int \<Rightarrow> item list" where
  "trim_conversation count conversation max_tokens =
     trim_loop count max_tokens (rev conversation) 0 []"

text \<open>The sum of the per-turn costs of a sequence of well-formed turns.\<close>

definition total_cost :: "counter \<Rightarrow> item list \<Rightarrow> int" where
  "total_cost count items = sum_list (map (item_tokens count) items)"

section \<open>Texts\<close>

text \<open>An ASCII literal of the source as a text.\<close>

definition lit :: "string \<Rightarrow> pystr" where
  "lit s = map of_char s"

text \<open>\<open>str(n)\<close> for an integer: decimal digits, with a minus sign when negative.\<close>

fun str_nat :: "nat \<Rightarrow> pystr" where
  "str_nat n = (if n < 10 then [48 + n] else str_nat (n div 10) @ [48 + n mod 10])"

definition str_int :: "int \<Rightarrow> pystr" where
  "str_int i = (if i < 0 then 45 # str_nat (nat (- i)) else str_nat (nat i))"

text \<open>\<open>sep.join(parts)\<close>.\<close>

fun join :: "pystr \<Rightarrow> pystr list \<Rightarrow> pystr" where
  "join sep [] = []"
| "join sep [x] = x"
| "join sep (x # y # ys) = x @ sep @ join sep (y # ys)"

text \<open>
  \<open>str.isspace\<close> on one code point (the code points Python treats as whitespace), and
  \<open>str.strip()\<close> without arguments, which removes them at both ends.
\<close>

definition isspace :: "nat \<Rightarrow> bool" where
  "isspace c = (c \<in> set [9, 10, 11, 12, 13, 28, 29, 30, 31, 32, 133, 160, 5760,
      8192, 8193, 8194, 8195, 8196, 8197, 8198, 8199, 8200, 8201, 8202,
      8232, 8233, 8239, 8287, 12288])"

definition strip :: "pystr \<Rightarrow> pystr" where
  "strip s = rev (dropWhile isspace (rev (dropWhile isspace s)))"

text \<open>
  The slice \<open>xs[-n:]\<close> for \<open>n \<ge> 0\<close>: the last \<open>n\<close> elements, the whole list when it is
  shorter, and also the whole list when \<open>n = 0\<close> (\<open>xs[-0:]\<close> is \<open>xs[0:]\<close>).
\<close>

definition tail_slice :: "nat \<Rightarrow> 'a list \<Rightarrow> 'a list" where
  "tail_slice n xs = (if n = 0 then xs else drop (length xs - n) xs)"

section \<open>Messages in the provider's format\<close>

text \<open>A dictionary \<open>{"role": ..., "content": ...}\<close>.\<close>

record message =
  role :: pystr
  content :: pystr

definition user_message :: "pystr \<Rightarrow> message" where
  "user_message c = \<lparr>role = lit ''user'', content = c\<rparr>"

definition assistant_message :: "pystr \<Rightarrow> message" where
  "assistant_message c = \<lparr>role = lit ''assistant'', content = c\<rparr>"

text \<open>
  \<open>convert_to_openai_format\<close>: entries that do not have two fields are left out, every
  other entry gives its user message and then its assistant message.
\<close>

fun convert_to_openai_format :: "item list \<Rightarrow> message list" where
  "convert_to_openai_format [] = []"
| "convert_to_openai_format (item # rest) =
     (if length item = 2
      then user_message (item ! 0) # assistant_message (item ! 1)
             # convert_to_openai_format rest
      else convert_to_openai_format rest)"

text \<open>
  \<open>convert_from_openai_format\<close>: \<open>range(0, len(formatted_history), 2)\<close> is the list of
  the even indices below the length; an index \<open>i\<close> gives a pair when \<open>i + 1\<close> is still
  below the length. Only the \<open>content\<close> fields are read.
\<close>

definition range_step2 :: "nat \<Rightarrow> nat list" where
  "range_step2 n = map (\<lambda>j. 2 * j) [0..<(n + 1) div 2]"

definition convert_from_openai_format :: "message list \<Rightarrow> item list" where
  "convert_from_openai_format formatted_history =
     concat (map (\<lambda>i. if i + 1 < length formatted_history
                       then [[content (formatted_history ! i),
                              content (formatted_history ! (i + 1))]]
                       else [])
                 (range_step2 (length formatted_history)))"

section \<open>prepare_api_messages\<close>

text \<open>
  The profile is the dictionary of \<open>profile.json\<close> with its required fields \<open>name\<close>,
  \<open>age\<close>, \<open>profession\<close> and \<open>interests\<close>; \<open>memory\<close> is never read.
\<close>

record profile =
  name :: pystr
  age :: int
  profession :: pystr
  interests :: "pystr list"

definition indent8 :: pystr where
  "indent8 = [10, 32, 32, 32, 32, 32, 32, 32, 32]"

text \<open>
  The formatted string of the system prompt. Its literal parts are written by their code
  points; each line break of the source literal is followed by eight spaces.
\<close>

definition system_prompt :: "profile \<Rightarrow> message" where
  "system_prompt p =
     \<lparr>role = lit ''system'',
      content = [20320, 27491, 22312, 19982] @ name p
        @ [23545, 35805, 58] @ indent8 @ [24180, 40836, 58, 32] @ str_int (age p)
        @ indent8 @ [32844, 19994, 58, 32] @ profession p
        @ indent8 @ [20852, 36259, 58, 32] @ join (lit '', '') (interests p)\<rparr>"

text \<open>
  The loop over \<open>conversation[-MAX_HISTORY_ITEMS:]\<close>, oldest entry first, with the local
  variables \<open>messages\<close> and \<open>tokens_used\<close>; it returns both.
\<close>

fun history_loop :: "counter \<Rightarrow> item list \<Rightarrow> message list \<Rightarrow> int \<Rightarrow> message list \<times> int" where
  "history_loop count [] messages tokens_used = (messages, tokens_used)"
| "history_loop count (item # rest) messages tokens_used =
     (if length item \<noteq> 2 then history_loop count rest messages tokens_used
      else if tokens_used + item_tokens count item > MAX_TOKENS
           then (messages, tokens_used)
      else history_loop count rest
             (messages @ [user_message (item ! 0), assistant_message (item ! 1)])
             (tokens_used + item_tokens count item))"

definition prepare_api_messages :: "counter \<Rightarrow> item list \<Rightarrow> profile \<Rightarrow> pystr \<Rightarrow> message list" where
  "prepare_api_messages count conversation p new_message =
     (case history_loop count (tail_slice MAX_HISTORY_ITEMS conversation)
             [system_prompt p] (int (count (content (system_prompt p)))) of
        (messages, tokens_used) \<Rightarrow>
          if int (count new_message) + tokens_used < MAX_TOKENS
          then messages @ [user_message new_message]
          else messages)"

text \<open>The two messages a well-formed turn contributes to the request.\<close>

definition turn_messages :: "item \<Rightarrow> message list" where
  "turn_messages item = [user_message (item ! 0), assistant_message (item ! 1)]"

text \<open>The well-formed turns of the window that \<open>prepare_api_messages\<close> walks.\<close>

definition history_window :: "item list \<Rightarrow> item list" where
  "history_window conversation =
     filter well_formed (tail_slice MAX_HISTORY_ITEMS conversation)"

section \<open>The outside world\<close>

text \<open>
  An exception, with the text \<open>str(e)\<close> gives for it.
\<close>

datatype exn = Exn pystr

fun str_exn :: "exn \<Rightarrow> pystr" where
  "str_exn (Exn m) = m"

text \<open>The body of the request posted to the provider, with the authorization header.\<close>

record request =
  req_authorization :: pystr
  req_model :: pystr
  req_messages :: "message list"
  req_stream :: bool
  req_max_tokens :: int

text \<open>
  What the program reads from outside and cannot change: the tokenizer, Python's
  \<open>str\<close> of a list of messages, the environment variable \<open>DEEPSEEK_API_KEY\<close>, the
  fragments that the streaming loop over the provider's answer yields for a request
  (an error fragment included, since that loop catches every exception), the file names
  \<open>glob\<close> finds for \<open>conversation_*.json\<close>, \<open>os.path.getmtime\<close> (which raises for a name
  that cannot be read), whether a file can be opened and written, and the clock already
  formatted by \<open>strftime\<close>.
\<close>

record env =
  tokenizer :: counter
  py_repr :: "message list \<Rightarrow> pystr"
  api_key :: "pystr option"
  post_stream :: "request \<Rightarrow> pystr list"
  glob_files :: "pystr list"
  getmtime :: "pystr \<Rightarrow> exn + int"
  can_write :: "pystr \<Rightarrow> bool"
  timestamp :: pystr

text \<open>
  What the program changes: the stored documents (a file that is missing, unreadable or
  not a JSON list of \<open>{role, content}\<close> objects has no document) and the requests sent
  to the provider so far.
\<close>

record state =
  fs :: "pystr \<rightharpoonup> message list"
  sent :: "request list"

section \<open>Persistence\<close>

definition CONVERSATION_DIR :: pystr where
  "CONVERSATION_DIR = lit ''data'' @ lit ''/'' @ lit ''conversations''"

text \<open>
  \<open>save_conversation\<close>: an empty file name is replaced by a name made from the clock;
  a write that fails is caught and the empty name is returned.
\<close>

definition save_conversation :: "env \<Rightarrow> state \<Rightarrow> item list \<Rightarrow> pystr \<Rightarrow> pystr \<times> state" where
  "save_conversation e s conversation filename =
     (let filename' =
            (if filename = []
             then CONVERSATION_DIR @ lit ''/''
                    @ lit ''conversation_'' @ timestamp e @ lit ''.json''
             else filename)
      in if can_write e filename'
         then (filename', s\<lparr>fs := (fs s)(filename' \<mapsto> convert_to_openai_format conversation)\<rparr>)
         else ([], s))"

text \<open>\<open>load_conversation\<close>: every exception is caught and gives the empty list.\<close>

definition load_conversation :: "state \<Rightarrow> pystr \<Rightarrow> item list" where
  "load_conversation s filename =
     (case fs s filename of
        None \<Rightarrow> []
      | Some formatted_history \<Rightarrow> convert_from_openai_format formatted_history)"

text \<open>
  \<open>sorted(files, key=os.path.getmtime, reverse=True)\<close>: the keys are computed first, in
  order, and the first exception is raised; the sort is stable, also when reversed.
\<close>

fun with_mtime :: "(pystr \<Rightarrow> exn + int) \<Rightarrow> pystr list \<Rightarrow> exn + (pystr \<times> int) list" where
  "with_mtime key [] = Inr []"
| "with_mtime key (f # files) =
     (case key f of
        Inl err \<Rightarrow> Inl err
      | Inr t \<Rightarrow> (case with_mtime key files of
                   Inl err \<Rightarrow> Inl err
                 | Inr keyed \<Rightarrow> Inr ((f, t) # keyed)))"

definition get_conversation_files :: "env \<Rightarrow> exn + pystr list" where
  "get_conversation_files e =
     (case with_mtime (getmtime e) (glob_files e) of
        Inl err \<Rightarrow> Inl err
      | Inr keyed \<Rightarrow> Inr (map fst (rev (sort_key snd (rev keyed)))))"

definition load_recent_conversations :: "env \<Rightarrow> state \<Rightarrow> nat \<Rightarrow> exn + item list" where
  "load_recent_conversations e s max_count =
     (case get_conversation_files e of
        Inl err \<Rightarrow> Inl err
      | Inr conversation_files \<Rightarrow>
          Inr (tail_slice max_count
                 (concat (map (load_conversation s) (take max_count conversation_files)))))"

section \<open>The provider call and respond\<close>

definition no_key_fragment :: pystr where
  "no_key_fragment =
     [91, 38169, 35823, 93, 32, 26410, 35774, 32622] @ lit ''API''
       @ [23494, 38053, 65292, 35831, 22312] @ lit ''.env''
       @ [25991, 20214, 20013, 37197, 32622] @ lit ''DEEPSEEK_API_KEY''"

text \<open>
  \<open>call_deepseek_api_stream\<close>: the fragments it yields and the state afterwards. Without
  a key (unset or empty) it yields one fragment and sends nothing.
\<close>

definition call_deepseek_api_stream ::
    "env \<Rightarrow> state \<Rightarrow> pystr \<Rightarrow> item list \<Rightarrow> profile \<Rightarrow> pystr list \<times> state" where
  "call_deepseek_api_stream e s prompt conversation p =
     (case api_key e of
        None \<Rightarrow> ([no_key_fragment], s)
      | Some k \<Rightarrow>
          if k = [] then ([no_key_fragment], s)
          else
            let messages = prepare_api_messages (tokenizer e) conversation p prompt;
                data = \<lparr>req_authorization = lit ''Bearer '' @ k,
                        req_model = lit ''deepseek-chat'',
                        req_messages = messages,
                        req_stream = True,
                        req_max_tokens =
                          min 2000 (MAX_TOKENS - int (tokenizer e (py_repr e messages)))\<rparr>
            in (post_stream e data, s\<lparr>sent := sent s @ [data]\<rparr>))"

definition error_msg :: "exn \<Rightarrow> pystr" where
  "error_msg err = [21457, 29983, 38169, 35823, 58, 32] @ str_exn err"

text \<open>
  The \<open>try\<close> block of \<open>respond\<close>: the pairs it yields and the state afterwards, or the
  exception that leaves it. One pair is yielded after each fragment, with the fragments
  received so far joined, and a last one after the conversation is saved.
\<close>

definition respond_try ::
    "env \<Rightarrow> state \<Rightarrow> pystr \<Rightarrow> item list \<Rightarrow> profile \<Rightarrow> pystr
       \<Rightarrow> exn + ((item list \<times> pystr) list \<times> state)" where
  "respond_try e s message chat_history p current_file =
     (case load_recent_conversations e s 30 of
        Inl err \<Rightarrow> Inl err
      | Inr recent_chats \<Rightarrow>
          let combined_history = recent_chats @ chat_history;
              cleaned_history = filter (\<lambda>item. length item = 2) combined_history;
              trimmed_history =
                trim_conversation (tokenizer e) cleaned_history (MAX_TOKENS div 2)
          in case call_deepseek_api_stream e s message trimmed_history p of
               (chunks, s1) \<Rightarrow>
                 let shown = map (\<lambda>n. (trimmed_history @ [[message, concat (take n chunks)]],
                                       current_file))
                                 [1..<Suc (length chunks)];
                     full_conversation = trimmed_history @ [[message, concat chunks]]
                 in case save_conversation e s1 full_conversation current_file of
                      (current_file', s2) \<Rightarrow>
                        Inr (shown @ [(full_conversation, current_file')], s2))"

text \<open>
  \<open>respond\<close>: everything it yields, in order, and the state afterwards. In the \<open>try\<close>
  block an exception can only leave the first statement, before anything is yielded,
  sent or written, so the handler's pair is then the only one.
\<close>

definition respond ::
    "env \<Rightarrow> state \<Rightarrow> pystr \<Rightarrow> item list \<Rightarrow> profile \<Rightarrow> pystr
       \<Rightarrow> (item list \<times> pystr) list \<times> state" where
  "respond e s message chat_history p current_file =
     (if strip message = [] then ([(chat_history, current_file)], s)
      else case respond_try e s message chat_history p current_file of
             Inl err \<Rightarrow> ([(chat_history @ [[message, error_msg err]], current_file)], s)
           | Inr result \<Rightarrow> result)"


section \<open>Example inputs\<close>

text \<open>
  Concrete inputs on which the functions are evaluated: a profile, two tokenizers that
  make one text expensive, a stored record of odd length, and a world whose directory
  listing fails.
\<close>

definition example_profile :: profile where
  "example_profile = \<lparr>name = lit ''Ann'', age = 20, profession = lit ''dev'',
                        interests = [lit ''go'', lit ''tea'']\<rparr>"


definition heavy_x :: counter where
  "heavy_x t = (if t = [120] then 4000 else if t = [121] then 3999 else 0)"

definition example_doc :: "message list" where
  "example_doc = [\<lparr>role = lit ''user'', content = [104, 105]\<rparr>,
                  \<lparr>role = lit ''assistant'', content = [104, 111]\<rparr>,
                  \<lparr>role = lit ''user'', content = [63]\<rparr>]"

definition example_state :: state where
  "example_state = \<lparr>fs = [lit ''old.json'' \<mapsto> example_doc], sent = []\<rparr>"

definition example_env :: env where
  "example_env =
     \<lparr>tokenizer = length,
      py_repr = (\<lambda>ms. concat (map content ms)),
      api_key = Some (lit ''key''),
      post_stream = (\<lambda>r. [lit ''fine'']),
      glob_files = [lit ''old.json''],
      getmtime = (\<lambda>f. Inl (Exn (lit ''gone''))),
      can_write = (\<lambda>f. True),
      timestamp = lit ''20240101_120000''\<rparr>"

text \<open>The same world with no stored conversation and a readable directory.\<close>

definition example_env_ok :: env where
  "example_env_ok = example_env\<lparr>glob_files := [], getmtime := (\<lambda>f. Inr 0)\<rparr>"

section \<open>Properties of trim_conversation\<close>

lemma item_tokens_nonneg: "0 \<le> item_tokens count item"
  by (simp add: item_tokens_def)

lemma total_cost_Nil: "total_cost count [] = 0"
  by (simp add: total_cost_def)

lemma total_cost_Cons:
  "total_cost count (x # xs) = item_tokens count x + total_cost count xs"
  by (simp add: total_cost_def)

lemma total_cost_append:
  "total_cost count (xs @ ys) = total_cost count xs + total_cost count ys"
  by (simp add: total_cost_def)

lemma total_cost_rev: "total_cost count (rev xs) = total_cost count xs"
  by (induction xs) (simp_all add: total_cost_Nil total_cost_Cons total_cost_append)

text \<open>
  What the loop has built when it stops: the entries it kept are the first \<open>k\<close>
  well-formed entries of the list it walked, in reverse, in front of what it had.
\<close>

lemma trim_loop_take:
  "\<exists>k. trim_loop count b xs t acc = rev (take k (filter well_formed xs)) @ acc
     \<and> (t \<le> b \<longrightarrow> t + total_cost count (take k (filter well_formed xs)) \<le> b)"
proof (induction xs arbitrary: t acc)
  case Nil
  show ?case by (simp add: total_cost_Nil)
next
  case (Cons x xs)
  show ?case
  proof (cases "length x \<noteq> 2")
    case True
    then show ?thesis using Cons.IH [of t acc] by (simp add: well_formed_def)
  next
    case wf: False
    show ?thesis
    proof (cases "t + item_tokens count x > b")
      case True
      have "trim_loop count b (x # xs) t acc
              = rev (take 0 (filter well_formed (x # xs))) @ acc"
        using wf True by simp
      moreover have "t \<le> b \<longrightarrow> t + total_cost count (take 0 (filter well_formed (x # xs))) \<le> b"
        by (simp add: total_cost_Nil)
      ultimately show ?thesis by blast
    next
      case False
      from Cons.IH [of "t + item_tokens count x" "x # acc"]
      obtain k where k:
        "trim_loop count b xs (t + item_tokens count x) (x # acc)
           = rev (take k (filter well_formed xs)) @ x # acc"
        "t + item_tokens count x \<le> b \<longrightarrow>
           t + item_tokens count x + total_cost count (take k (filter well_formed xs)) \<le> b"
        by blast
      have "trim_loop count b (x # xs) t acc
              = rev (take (Suc k) (filter well_formed (x # xs))) @ acc"
        using wf False k(1) by (simp add: well_formed_def)
      moreover have "t + total_cost count (take (Suc k) (filter well_formed (x # xs))) \<le> b"
        using wf False k(2) by (simp add: well_formed_def total_cost_Cons)
      ultimately show ?thesis by blast
    qed
  qed
qed

lemma trim_conversation_suffix:
  "suffix (trim_conversation count h b) (filter well_formed h)"
proof -
  obtain k where k:
    "trim_loop count b (rev h) 0 [] = rev (take k (filter well_formed (rev h))) @ []"
    using trim_loop_take [of count b "rev h" 0 "[]"] by blast
  have "filter well_formed (rev h) = rev (filter well_formed h)"
    by (simp add: rev_filter)
  then have "trim_conversation count h b = rev (take k (rev (filter well_formed h)))"
    using k by (simp add: trim_conversation_def)
  also have "\<dots> = drop (length (filter well_formed h) - k) (filter well_formed h)"
    by (simp add: take_rev)
  finally show ?thesis by (simp add: suffix_drop)
qed

lemma trim_conversation_cost:
  assumes "0 \<le> b"
  shows "total_cost count (trim_conversation count h b) \<le> b"
proof -
  obtain k where k:
    "trim_loop count b (rev h) 0 [] = rev (take k (filter well_formed (rev h))) @ []"
    "0 \<le> b \<longrightarrow> 0 + total_cost count (take k (filter well_formed (rev h))) \<le> b"
    using trim_loop_take [of count b "rev h" 0 "[]"] by blast
  show ?thesis using k assms by (simp add: trim_conversation_def total_cost_rev)
qed

lemma trim_loop_first_too_big:
  "filter well_formed xs \<noteq> [] \<Longrightarrow>
   t + item_tokens count (hd (filter well_formed xs)) > b \<Longrightarrow>
   trim_loop count b xs t acc = acc"
  by (induction xs) (auto simp: well_formed_def)

text \<open>
  C1, as stated, for a negative budget: the result is empty, its cost is 0, and 0 is
  above the budget.
\<close>

theorem trim_conversation_negative_budget:
  "trim_conversation length [[[104, 105], [104, 105]]] (- 1) = []
   \<and> \<not> total_cost length (trim_conversation length [[[104, 105], [104, 105]]] (- 1)) \<le> - 1"
  by (simp add: trim_conversation_def item_tokens_def total_cost_def)

text \<open>
  C1 (amended): for every history and every budget, \<open>trim_conversation\<close> returns a
  contiguous suffix of the history filtered to its well-formed entries (two fields each,
  in their original order), and for every budget that is not negative the sum of the
  costs \<open>count(user_text) + count(assistant_text)\<close> over the result is at most the budget.
\<close>

theorem trim_conversation_suffix_within_budget:
  "suffix (trim_conversation count h b) (filter well_formed h)
   \<and> (0 \<le> b \<longrightarrow> total_cost count (trim_conversation count h b) \<le> b)"
  using trim_conversation_suffix [of count h b] trim_conversation_cost [of b count h]
  by blast

text \<open>
  Five turns of 1000 tokens each and a budget of 2500: the last two turns are returned.
\<close>

theorem trim_conversation_suffix_within_budget_witness:
  "(0::int) \<le> 2500
   \<and> trim_conversation (\<lambda>t. 500 * length t)
        [[[1], [2]], [[3], [4]], [[5], [6]], [[7], [8]], [[9], [10]]] 2500
       = [[[7], [8]], [[9], [10]]]
   \<and> suffix (trim_conversation (\<lambda>t. 500 * length t)
               [[[1], [2]], [[3], [4]], [[5], [6]], [[7], [8]], [[9], [10]]] 2500)
        (filter well_formed [[[1], [2]], [[3], [4]], [[5], [6]], [[7], [8]], [[9], [10]]])
   \<and> total_cost (\<lambda>t. 500 * length t)
        (trim_conversation (\<lambda>t. 500 * length t)
           [[[1], [2]], [[3], [4]], [[5], [6]], [[7], [8]], [[9], [10]]] 2500) \<le> 2500"
  using trim_conversation_suffix_within_budget
          [of "\<lambda>t. 500 * length t"
              "[[[1], [2]], [[3], [4]], [[5], [6]], [[7], [8]], [[9], [10]]]" 2500]
  by (simp add: trim_conversation_def item_tokens_def)

text \<open>
  C2: when the history has a well-formed turn and the cost of the most recent one is
  above the budget, \<open>trim_conversation\<close> returns the empty sequence.
\<close>

theorem trim_conversation_last_turn_too_big:
  assumes "filter well_formed h \<noteq> []"
    and "item_tokens count (last (filter well_formed h)) > b"
  shows "trim_conversation count h b = []"
proof -
  have f: "filter well_formed (rev h) = rev (filter well_formed h)"
    by (simp add: rev_filter)
  have "hd (filter well_formed (rev h)) = last (filter well_formed h)"
    using assms(1) by (simp add: f hd_rev)
  moreover have "filter well_formed (rev h) \<noteq> []"
    using assms(1) by (simp add: f)
  ultimately show ?thesis
    using assms(2) trim_loop_first_too_big [of "rev h" b 0 count "[]"]
    by (simp add: trim_conversation_def)
qed

theorem trim_conversation_last_turn_too_big_witness:
  "filter well_formed [[[1], [2]], [[3]], [[5, 5, 5], [6, 6]], [[7]]] \<noteq> []
   \<and> item_tokens length (last (filter well_formed [[[1], [2]], [[3]], [[5, 5, 5], [6, 6]], [[7]]])) > 4
   \<and> trim_conversation length [[[1], [2]], [[3]], [[5, 5, 5], [6, 6]], [[7]]] 4 = []"
proof -
  have a: "filter well_formed [[[1], [2]], [[3]], [[5, 5, 5], [6, 6]], [[7::nat]]] \<noteq> []"
    by (simp add: well_formed_def)
  have b: "item_tokens length
             (last (filter well_formed [[[1], [2]], [[3]], [[5, 5, 5], [6, 6]], [[7::nat]]])) > 4"
    by (simp add: well_formed_def item_tokens_def)
  show ?thesis
    using a b trim_conversation_last_turn_too_big [OF a b] by simp
qed

section \<open>Properties of prepare_api_messages\<close>

lemma roles_distinct:
  "lit ''user'' \<noteq> lit ''system''" "lit ''assistant'' \<noteq> lit ''system''"
  by (simp_all add: lit_def)

lemma history_loop_shape:
  "\<exists>k\<le>length (filter well_formed xs).
      history_loop count xs msgs t
        = (msgs @ concat (map turn_messages (take k (filter well_formed xs))),
           t + total_cost count (take k (filter well_formed xs)))
    \<and> (0 < k \<longrightarrow> t + total_cost count (take k (filter well_formed xs)) \<le> MAX_TOKENS)
    \<and> (k < length (filter well_formed xs) \<longrightarrow>
          t + total_cost count (take (Suc k) (filter well_formed xs)) > MAX_TOKENS)"
proof (induction xs arbitrary: msgs t)
  case Nil
  show ?case by (simp add: total_cost_Nil)
next
  case (Cons x xs)
  let ?W = "filter well_formed xs"
  show ?case
  proof (cases "length x \<noteq> 2")
    case True
    then show ?thesis using Cons.IH [of msgs t] by (simp add: well_formed_def)
  next
    case wf: False
    then have W: "filter well_formed (x # xs) = x # ?W"
      by (simp add: well_formed_def)
    show ?thesis
    proof (cases "t + item_tokens count x > MAX_TOKENS")
      case True
      have "history_loop count (x # xs) msgs t = (msgs, t)"
        using wf True by simp
      then show ?thesis
        unfolding W using True
        by (intro exI [of _ 0]) (simp add: total_cost_Nil total_cost_Cons)
    next
      case False
      from Cons.IH [of "msgs @ [user_message (x ! 0), assistant_message (x ! 1)]"
                       "t + item_tokens count x"]
      obtain k where k: "k \<le> length ?W"
        "history_loop count xs (msgs @ [user_message (x ! 0), assistant_message (x ! 1)])
             (t + item_tokens count x)
           = ((msgs @ [user_message (x ! 0), assistant_message (x ! 1)])
                @ concat (map turn_messages (take k ?W)),
              t + item_tokens count x + total_cost count (take k ?W))"
        "0 < k \<longrightarrow> t + item_tokens count x + total_cost count (take k ?W) \<le> MAX_TOKENS"
        "k < length ?W \<longrightarrow>
           t + item_tokens count x + total_cost count (take (Suc k) ?W) > MAX_TOKENS"
        by blast
      have 1: "history_loop count (x # xs) msgs t
                 = (msgs @ concat (map turn_messages (take (Suc k) (x # ?W))),
                    t + total_cost count (take (Suc k) (x # ?W)))"
        using wf False k(2) by (simp add: turn_messages_def total_cost_Cons add.assoc)
      have 2: "t + total_cost count (take (Suc k) (x # ?W)) \<le> MAX_TOKENS"
        using False k(3) by (cases k) (simp_all add: total_cost_Cons total_cost_Nil add.assoc)
      have 3: "Suc k < length (x # ?W) \<longrightarrow>
                 t + total_cost count (take (Suc (Suc k)) (x # ?W)) > MAX_TOKENS"
        using k(4) by (simp add: total_cost_Cons add.assoc)
      show ?thesis
        using k(1) 1 2 3 unfolding W by (intro exI [of _ "Suc k"]) simp
    qed
  qed
qed

lemma prepare_api_messages_shape:
  "\<exists>k\<le>length (history_window conversation).
      prepare_api_messages count conversation p new_message
        = system_prompt p
            # concat (map turn_messages (take k (history_window conversation)))
            @ (if int (count new_message)
                    + (int (count (content (system_prompt p)))
                       + total_cost count (take k (history_window conversation)))
                  < MAX_TOKENS
               then [user_message new_message] else [])
    \<and> (k < length (history_window conversation) \<longrightarrow>
          int (count (content (system_prompt p)))
            + total_cost count (take (Suc k) (history_window conversation)) > MAX_TOKENS)"
proof -
  from history_loop_shape
         [of "tail_slice MAX_HISTORY_ITEMS conversation" count "[system_prompt p]"
             "int (count (content (system_prompt p)))"]
  obtain k where k: "k \<le> length (history_window conversation)"
    "history_loop count (tail_slice MAX_HISTORY_ITEMS conversation) [system_prompt p]
         (int (count (content (system_prompt p))))
       = ([system_prompt p] @ concat (map turn_messages (take k (history_window conversation))),
          int (count (content (system_prompt p)))
            + total_cost count (take k (history_window conversation)))"
    "k < length (history_window conversation) \<longrightarrow>
       int (count (content (system_prompt p)))
         + total_cost count (take (Suc k) (history_window conversation)) > MAX_TOKENS"
    unfolding history_window_def by blast
  show ?thesis
    using k(1) k(3) by (intro exI [of _ k]) (simp add: prepare_api_messages_def k(2))
qed


lemma example_prompt_content:
  "content (system_prompt example_profile) =
     [20320, 27491, 22312, 19982, 65, 110, 110, 23545, 35805, 58,
      10, 32, 32, 32, 32, 32, 32, 32, 32, 24180, 40836, 58, 32, 50, 48,
      10, 32, 32, 32, 32, 32, 32, 32, 32, 32844, 19994, 58, 32, 100, 101, 118,
      10, 32, 32, 32, 32, 32, 32, 32, 32, 20852, 36259, 58, 32,
      103, 111, 44, 32, 116, 101, 97]"
  by (simp add: system_prompt_def example_profile_def lit_def indent8_def str_int_def)


lemma heavy_x_prompt: "heavy_x (content (system_prompt example_profile)) = 0"
  by (simp add: example_prompt_content heavy_x_def)




text \<open>
  C4: with the running total being the cost of the system message plus the costs of the
  included history turns, \<open>prepare_api_messages\<close> appends the new user message exactly
  when \<open>count(new_message) + running total < MAX_TOKENS\<close>, strictly; otherwise the new
  message is left out and the messages built so far are returned.
\<close>

theorem prepare_api_messages_new_message_strict:
  "\<exists>k\<le>length (history_window conversation).
      prepare_api_messages count conversation p new_message
        = (system_prompt p
             # concat (map turn_messages (take k (history_window conversation))))
          @ (if int (count new_message)
                  + (int (count (content (system_prompt p)))
                     + total_cost count (take k (history_window conversation)))
                < MAX_TOKENS
             then [user_message new_message] else [])"
  using prepare_api_messages_shape [of conversation count p new_message] by auto

text \<open>
  At the boundary: a new message that brings the total to exactly 4000 is left out, one
  that brings it to 3999 is appended.
\<close>

theorem prepare_api_messages_new_message_strict_witness:
  "(\<exists>k\<le>length (history_window []).
      prepare_api_messages heavy_x [] example_profile [120]
        = (system_prompt example_profile
             # concat (map turn_messages (take k (history_window []))))
          @ (if int (heavy_x [120])
                  + (int (heavy_x (content (system_prompt example_profile)))
                     + total_cost heavy_x (take k (history_window [])))
                < MAX_TOKENS
             then [user_message [120]] else []))
   \<and> int (heavy_x [120]) + int (heavy_x (content (system_prompt example_profile))) = MAX_TOKENS
   \<and> prepare_api_messages heavy_x [] example_profile [120] = [system_prompt example_profile]
   \<and> int (heavy_x [121]) + int (heavy_x (content (system_prompt example_profile))) < MAX_TOKENS
   \<and> prepare_api_messages heavy_x [] example_profile [121]
        = [system_prompt example_profile, user_message [121]]"
proof -
  have a: "prepare_api_messages heavy_x [] example_profile [120] = [system_prompt example_profile]"
    by (simp add: prepare_api_messages_def tail_slice_def MAX_HISTORY_ITEMS_def
          MAX_TOKENS_def heavy_x_prompt)
       (simp add: heavy_x_def)
  have b: "prepare_api_messages heavy_x [] example_profile [121]
             = [system_prompt example_profile, user_message [121]]"
    by (simp add: prepare_api_messages_def tail_slice_def MAX_HISTORY_ITEMS_def
          MAX_TOKENS_def heavy_x_prompt)
       (simp add: heavy_x_def)
  have c: "int (heavy_x [120]) + int (heavy_x (content (system_prompt example_profile)))
             = MAX_TOKENS"
    "int (heavy_x [121]) + int (heavy_x (content (system_prompt example_profile)))
             < MAX_TOKENS"
    by (simp_all add: heavy_x_prompt MAX_TOKENS_def) (simp_all add: heavy_x_def)
  show ?thesis
    using prepare_api_messages_new_message_strict [of "[]" heavy_x example_profile "[120]"]
      a b c
    by simp
qed

lemma turn_messages_no_system:
  "filter (\<lambda>m. role m = lit ''system'') (concat (map turn_messages ts)) = []"
  by (induction ts)
     (simp_all add: turn_messages_def user_message_def assistant_message_def roles_distinct)

text \<open>
  C5: for every history, profile and new message, the sequence returned by
  \<open>prepare_api_messages\<close> starts with the system message, whose role is \<open>system\<close>, and
  no other message of the sequence has that role.
\<close>

theorem prepare_api_messages_one_system_first:
  "\<exists>rest. prepare_api_messages count conversation p new_message = system_prompt p # rest
     \<and> role (system_prompt p) = lit ''system''
     \<and> filter (\<lambda>m. role m = lit ''system'') rest = []"
proof -
  from prepare_api_messages_shape [of conversation count p new_message]
  obtain k where k:
    "prepare_api_messages count conversation p new_message
        = system_prompt p
            # concat (map turn_messages (take k (history_window conversation)))
            @ (if int (count new_message)
                    + (int (count (content (system_prompt p)))
                       + total_cost count (take k (history_window conversation)))
                  < MAX_TOKENS
               then [user_message new_message] else [])"
    by blast
  show ?thesis
    unfolding k
    by (simp add: turn_messages_no_system)
       (simp add: system_prompt_def user_message_def roles_distinct)
qed

section \<open>Properties of the stored format\<close>

lemma concat_map_if_singleton:
  "concat (map (\<lambda>j. if P j then [f j] else []) xs) = map f (filter P xs)"
  by (induction xs) simp_all

lemma filter_less_upt:
  "m \<le> k \<Longrightarrow> filter (\<lambda>j. j < m) [0..<k] = [0..<m]"
proof (induction k)
  case 0
  then show ?case by simp
next
  case (Suc k)
  show ?case
  proof (cases "m \<le> k")
    case True
    then show ?thesis using Suc.IH by simp
  next
    case False
    then have "m = Suc k" using Suc.prems by simp
    then show ?thesis by simp
  qed
qed

lemma convert_from_openai_format_nth:
  "convert_from_openai_format d
     = map (\<lambda>i. [content (d ! (2 * i)), content (d ! (2 * i + 1))]) [0..<length d div 2]"
proof -
  have "convert_from_openai_format d
          = concat (map (\<lambda>j. if j < length d div 2
                               then [[content (d ! (2 * j)), content (d ! (2 * j + 1))]]
                               else [])
                        [0..<(length d + 1) div 2])"
  proof -
    have "\<And>j. (2 * j + 1 < length d) = (j < length d div 2)" by arith
    then show ?thesis
      by (simp add: convert_from_openai_format_def range_step2_def comp_def)
  qed
  also have "\<dots> = map (\<lambda>i. [content (d ! (2 * i)), content (d ! (2 * i + 1))])
                      (filter (\<lambda>j. j < length d div 2) [0..<(length d + 1) div 2])"
    by (rule concat_map_if_singleton)
  also have "filter (\<lambda>j. j < length d div 2) [0..<(length d + 1) div 2] = [0..<length d div 2]"
    by (rule filter_less_upt) arith
  finally show ?thesis .
qed




lemma convert_from_openai_format_well_formed:
  "\<forall>t\<in>set (convert_from_openai_format d). well_formed t"
  by (auto simp: convert_from_openai_format_nth well_formed_def)

lemma convert_from_openai_format_butlast:
  assumes "odd (length d)"
  shows "convert_from_openai_format (butlast d) = convert_from_openai_format d"
proof -
  have l: "(length d - 1) div 2 = length d div 2"
    using assms by (auto elim!: oddE)
  have n: "butlast d ! (2 * i) = d ! (2 * i) \<and> butlast d ! Suc (2 * i) = d ! Suc (2 * i)"
    if "i < length d div 2" for i
  proof -
    have "2 * i + 1 < length d - 1" using that assms by (auto elim!: oddE)
    then show ?thesis by (simp add: nth_butlast)
  qed
  have "convert_from_openai_format (butlast d)
          = map (\<lambda>i. [content (butlast d ! (2 * i)), content (butlast d ! (2 * i + 1))])
                [0..<length d div 2]"
    unfolding convert_from_openai_format_nth [of "butlast d"] using l by simp
  also have "\<dots> = map (\<lambda>i. [content (d ! (2 * i)), content (d ! (2 * i + 1))])
                      [0..<length d div 2]"
    by (rule map_cong) (simp_all add: n)
  finally show ?thesis by (simp add: convert_from_openai_format_nth [of d])
qed

text \<open>
  C6, as stated, on a stored record of three messages (an unmatched trailing \<open>user\<close>
  message): the first two messages are loaded as a turn, the result is not empty.
\<close>

theorem load_conversation_keeps_pairs_of_odd_record:
  "load_conversation example_state (lit ''old.json'') = [[[104, 105], [104, 111]]]
   \<and> odd (length example_doc)
   \<and> load_conversation example_state (lit ''old.json'') \<noteq> []"
  by (simp add: load_conversation_def example_state_def example_doc_def
        convert_from_openai_format_nth)

text \<open>
  C6 (amended): loading a stored record whose array has odd length drops the unmatched
  trailing element only: the result is what loading the record without its last element
  gives, that is \<open>(n - 1) / 2\<close> turns for an array of \<open>n\<close> elements.
\<close>

theorem load_conversation_odd_length:
  assumes "fs s filename = Some d" and "odd (length d)"
  shows "load_conversation s filename = convert_from_openai_format (butlast d)
         \<and> length (load_conversation s filename) = (length d - 1) div 2"
proof -
  have "(length d - 1) div 2 = length d div 2"
    using assms(2) by (auto elim!: oddE)
  then show ?thesis
    using assms
    by (simp add: load_conversation_def convert_from_openai_format_butlast)
       (simp add: convert_from_openai_format_nth)
qed

theorem load_conversation_odd_length_witness:
  "fs example_state (lit ''old.json'') = Some example_doc
   \<and> odd (length example_doc)
   \<and> load_conversation example_state (lit ''old.json'')
       = convert_from_openai_format (butlast example_doc)
   \<and> length (load_conversation example_state (lit ''old.json''))
       = (length example_doc - 1) div 2
   \<and> convert_from_openai_format (butlast example_doc) = [[[104, 105], [104, 111]]]"
proof -
  have a: "fs example_state (lit ''old.json'') = Some example_doc"
    by (simp add: example_state_def)
  have b: "odd (length example_doc)"
    by (simp add: example_doc_def)
  have c: "convert_from_openai_format (butlast example_doc) = [[[104, 105], [104, 111]]]"
    by (simp add: example_doc_def convert_from_openai_format_nth)
  show ?thesis
    using a b c load_conversation_odd_length [OF a b] by (simp add: example_doc_def)
qed



text \<open>
  C10: every element of the result of \<open>load_conversation\<close> has exactly two fields. For
  a stored document \<open>d\<close> the result has \<open>length d div 2\<close> turns, turn \<open>i\<close> is made of the
  contents of elements \<open>2i\<close> and \<open>2i + 1\<close>, and every document with the same contents in
  the same positions gives the same result, whatever its role tags are.
\<close>

theorem load_conversation_positional_pairs:
  "(\<forall>t\<in>set (load_conversation s filename). well_formed t)
   \<and> (fs s filename = Some d \<longrightarrow>
        load_conversation s filename
          = map (\<lambda>i. [content (d ! (2 * i)), content (d ! (2 * i + 1))])
                [0..<length d div 2]
        \<and> (\<forall>d'. map content d' = map content d \<longrightarrow>
              convert_from_openai_format d' = load_conversation s filename))"
proof -
  have wf: "\<forall>t\<in>set (load_conversation s filename). well_formed t"
    by (cases "fs s filename")
       (simp_all add: load_conversation_def convert_from_openai_format_well_formed)
  have roles: "convert_from_openai_format d' = convert_from_openai_format d"
    if eq: "map content d' = map content d" for d' :: "message list"
  proof -
    have "length (map content d') = length (map content d)"
      using eq by simp
    then have len: "length d' = length d" by simp
    have c: "content (d' ! j) = content (d ! j)" if "j < length d" for j
    proof -
      have "map content d' ! j = map content d ! j" using eq by simp
      then show ?thesis using that len by simp
    qed
    have "map (\<lambda>i. [content (d' ! (2 * i)), content (d' ! (2 * i + 1))]) [0..<length d div 2]
            = map (\<lambda>i. [content (d ! (2 * i)), content (d ! (2 * i + 1))]) [0..<length d div 2]"
    proof (rule map_cong [OF refl])
      fix i assume "i \<in> set [0..<length d div 2]"
      then have "2 * i < length d" "2 * i + 1 < length d" by auto
      then show "[content (d' ! (2 * i)), content (d' ! (2 * i + 1))]
                   = [content (d ! (2 * i)), content (d ! (2 * i + 1))]"
        using c [of "2 * i"] c [of "2 * i + 1"] by simp
    qed
    then show ?thesis
      using len
      by (simp only: convert_from_openai_format_nth [of d'] convert_from_openai_format_nth [of d])
  qed
  show ?thesis
  proof (intro conjI impI allI)
    show "\<forall>t\<in>set (load_conversation s filename). well_formed t" by (rule wf)
  next
    assume "fs s filename = Some d"
    then show "load_conversation s filename
          = map (\<lambda>i. [content (d ! (2 * i)), content (d ! (2 * i + 1))])
                [0..<length d div 2]"
      by (simp only: load_conversation_def option.case convert_from_openai_format_nth [of d])
  next
    fix d' :: "message list"
    assume "fs s filename = Some d" and "map content d' = map content d"
    then show "convert_from_openai_format d' = load_conversation s filename"
      using roles [of d'] by (simp add: load_conversation_def)
  qed
qed

theorem load_conversation_positional_pairs_witness:
  "list_all well_formed (load_conversation example_state (lit ''old.json''))
   \<and> fs example_state (lit ''old.json'') = Some example_doc
   \<and> load_conversation example_state (lit ''old.json'')
       = map (\<lambda>i. [content (example_doc ! (2 * i)), content (example_doc ! (2 * i + 1))])
             [0..<length example_doc div 2]
   \<and> map content (map (\<lambda>m. m\<lparr>role := lit ''system''\<rparr>) example_doc) = map content example_doc
   \<and> convert_from_openai_format (map (\<lambda>m. m\<lparr>role := lit ''system''\<rparr>) example_doc)
       = load_conversation example_state (lit ''old.json'')"
proof -
  have a: "fs example_state (lit ''old.json'') = Some example_doc"
    by (simp add: example_state_def)
  have b: "map content (map (\<lambda>m. m\<lparr>role := lit ''system''\<rparr>) example_doc)
             = map content example_doc"
    by simp
  show ?thesis
    using a b load_conversation_positional_pairs [of example_state "lit ''old.json''" example_doc]
    unfolding list_all_iff by blast
qed

section \<open>Properties of respond\<close>

lemma dropWhile_all_iff:
  "(\<forall>x\<in>set (dropWhile P xs). P x) = (\<forall>x\<in>set xs. P x)"
  by (induction xs) auto

lemma strip_empty_iff: "(strip s = []) = (\<forall>c\<in>set s. isspace c)"
proof -
  have "(strip s = []) = (\<forall>x\<in>set (rev (dropWhile isspace s)). isspace x)"
    by (simp add: strip_def)
  also have "\<dots> = (\<forall>x\<in>set (dropWhile isspace s). isspace x)" by simp
  also have "\<dots> = (\<forall>x\<in>set s. isspace x)" by (rule dropWhile_all_iff)
  finally show ?thesis .
qed


text \<open>
  A run of \<open>respond\<close> with nothing stored, the session history \<open>[(hi, hello)]\<close>, a new
  message and no file name yet: the history is not trimmed, the request holds the system
  message, the turn and the new message, one pair is yielded for the fragment and one
  after the conversation is saved under a name made from the clock.
\<close>

lemma example_prompt_length: "length (content (system_prompt example_profile)) = 61"
  by (simp add: example_prompt_content)

lemma respond_example_run:
  "fst (respond example_env_ok example_state (lit ''how are you?'')
          [[lit ''hi'', lit ''hello'']] example_profile [])
     = [([[lit ''hi'', lit ''hello''], [lit ''how are you?'', lit ''fine'']], []),
        ([[lit ''hi'', lit ''hello''], [lit ''how are you?'', lit ''fine'']],
         lit ''data/conversations/conversation_20240101_120000.json'')]
   \<and> map req_messages
         (sent (snd (respond example_env_ok example_state (lit ''how are you?'')
                       [[lit ''hi'', lit ''hello'']] example_profile [])))
       = [[system_prompt example_profile, user_message (lit ''hi''),
           assistant_message (lit ''hello''), user_message (lit ''how are you?'')]]
   \<and> fs (snd (respond example_env_ok example_state (lit ''how are you?'')
                 [[lit ''hi'', lit ''hello'']] example_profile []))
         (lit ''data/conversations/conversation_20240101_120000.json'')
       = Some [user_message (lit ''hi''), assistant_message (lit ''hello''),
               user_message (lit ''how are you?''), assistant_message (lit ''fine'')]"
proof -
  have s: "strip (lit ''how are you?'') \<noteq> []"
    by (simp add: strip_def isspace_def lit_def)
  have r: "load_recent_conversations example_env_ok example_state 30 = Inr []"
    by (simp add: load_recent_conversations_def get_conversation_files_def
          example_env_ok_def example_env_def tail_slice_def)
  have t: "trim_conversation (tokenizer example_env_ok) [[lit ''hi'', lit ''hello'']]
             (MAX_TOKENS div 2) = [[lit ''hi'', lit ''hello'']]"
    by (simp add: trim_conversation_def item_tokens_def MAX_TOKENS_def
          example_env_ok_def example_env_def lit_def)
  have p: "prepare_api_messages (tokenizer example_env_ok) [[lit ''hi'', lit ''hello'']]
             example_profile (lit ''how are you?'')
           = [system_prompt example_profile, user_message (lit ''hi''),
              assistant_message (lit ''hello''), user_message (lit ''how are you?'')]"
    by (simp add: prepare_api_messages_def tail_slice_def MAX_HISTORY_ITEMS_def
          MAX_TOKENS_def item_tokens_def example_env_ok_def example_env_def
          example_prompt_length)
       (simp add: lit_def)
  have c: "call_deepseek_api_stream example_env_ok example_state (lit ''how are you?'')
             [[lit ''hi'', lit ''hello'']] example_profile
           = ([lit ''fine''],
              example_state\<lparr>sent := [\<lparr>req_authorization = lit ''Bearer key'',
                  req_model = lit ''deepseek-chat'',
                  req_messages = [system_prompt example_profile, user_message (lit ''hi''),
                     assistant_message (lit ''hello''), user_message (lit ''how are you?'')],
                  req_stream = True,
                  req_max_tokens = 2000\<rparr>]\<rparr>)"
    unfolding call_deepseek_api_stream_def p
    by (simp add: example_env_ok_def example_env_def example_state_def Let_def
          MAX_TOKENS_def example_prompt_length user_message_def assistant_message_def)
       (simp add: lit_def)
  show ?thesis
    unfolding respond_def respond_try_def r
    using s
    by (simp add: t c Let_def save_conversation_def CONVERSATION_DIR_def)
       (simp add: example_env_ok_def example_env_def example_state_def lit_def
          user_message_def assistant_message_def)
qed



text \<open>
  C9: for an empty or whitespace-only message \<open>respond\<close> yields the history and the
  file name it was given, once, and the state is unchanged: nothing is sent and nothing
  is written.
\<close>

theorem respond_blank_message_noop:
  assumes "\<forall>c\<in>set message. isspace c"
  shows "respond e s message chat_history p current_file
           = ([(chat_history, current_file)], s)"
  using assms by (simp add: respond_def strip_empty_iff)

theorem respond_blank_message_noop_witness:
  "list_all isspace [32, 9, 12288, 10]
   \<and> respond example_env example_state [32, 9, 12288, 10] [[[97], [98]]] example_profile
        (lit ''cur.json'')
       = ([([[[97], [98]]], lit ''cur.json'')], example_state)
   \<and> fs (snd (respond example_env example_state [32, 9, 12288, 10] [[[97], [98]]]
                 example_profile (lit ''cur.json''))) = fs example_state
   \<and> sent (snd (respond example_env example_state [32, 9, 12288, 10] [[[97], [98]]]
                   example_profile (lit ''cur.json''))) = []"
proof -
  have a: "\<forall>c\<in>set [32, 9, 12288, 10]. isspace c"
    by (simp add: isspace_def)
  show ?thesis
    using a respond_blank_message_noop [OF a, of example_env example_state "[[[97], [98]]]"
        example_profile "lit ''cur.json''"]
    by (simp add: example_state_def list_all_iff)
qed

end
